theory Spec2Isabelle
  imports Main
begin

section \<open>The User model (backend/models/User.js)\<close>

text \<open>
  Only the fields that the quota methods read or write are kept: the role, the
  subscription type and the four usage counters of the \<open>features\<close> sub-document.
  The schema fixes the keys of \<open>features\<close>: \<open>imageToText\<close>, \<open>textToImage\<close>,
  \<open>videoDownloads\<close> and \<open>storage\<close>. Counters and sizes are JavaScript numbers that hold
  counts and byte sizes; they are modelled as unbounded integers.
\<close>

datatype role = RoleUser | RoleAdmin | RolePremium

datatype subscription_type = Free | Monthly | Yearly

record usage_counter =
  used :: int
  limit :: int

record user_features =
  imageToText :: usage_counter
  textToImage :: usage_counter
  videoDownloads :: usage_counter
  storage :: usage_counter

record user =
  user_id :: nat
  role :: role
  subscription_type :: subscription_type
  features :: user_features

text \<open>A thrown JavaScript exception is a value: reading a property of \<open>undefined\<close>.\<close>

datatype js_error = TypeError

text \<open>
  \<open>this.features[featureName]\<close>: the counter stored under a key of the schema, and
  \<open>undefined\<close> (here \<open>None\<close>) for every other name that is not inherited. On the real
  document an inherited or internal name (\<open>constructor\<close>, \<open>__proto__\<close>, \<open>toObject\<close>)
  gives a defined value that is no counter; such names are not modelled. No call in the
  repository passes one: every call passes a literal name of \<open>handler_feature_names\<close>,
  and the lookup is the document's at those names and at the four keys.
\<close>

definition feature_keys :: "string list" where
  "feature_keys = [''imageToText'', ''textToImage'', ''videoDownloads'', ''storage'']"

definition handler_feature_names :: "string list" where
  "handler_feature_names =
     [''youtube-download'', ''instagram-download'', ''facebook-download'', ''image-to-text'',
      ''text-to-image'', ''image-resize'', ''image-compress'', ''image-quality-enhance'',
      ''background-remove'', ''signature-maker'', ''passport-photo-maker'']"

definition get_feature :: "user_features \<Rightarrow> string \<Rightarrow> usage_counter option" where
  "get_feature fs featureName =
     (if featureName = ''imageToText'' then Some (imageToText fs)
      else if featureName = ''textToImage'' then Some (textToImage fs)
      else if featureName = ''videoDownloads'' then Some (videoDownloads fs)
      else if featureName = ''storage'' then Some (storage fs)
      else None)"

definition set_feature :: "user_features \<Rightarrow> string \<Rightarrow> usage_counter \<Rightarrow> user_features" where
  "set_feature fs featureName c =
     (if featureName = ''imageToText'' then fs\<lparr>imageToText := c\<rparr>
      else if featureName = ''textToImage'' then fs\<lparr>textToImage := c\<rparr>
      else if featureName = ''videoDownloads'' then fs\<lparr>videoDownloads := c\<rparr>
      else if featureName = ''storage'' then fs\<lparr>storage := c\<rparr>
      else fs)"

text \<open>
  \<open>canUseFeature\<close>: an admin may always use a feature; a free subscription compares
  \<open>used\<close> with \<open>limit\<close> of \<open>features[featureName]\<close>, which throws when that entry is
  \<open>undefined\<close>; every other subscription is unlimited.
\<close>

definition canUseFeature :: "user \<Rightarrow> string \<Rightarrow> js_error + bool" where
  "canUseFeature u featureName =
     (if role u = RoleAdmin then Inr True
      else if subscription_type u = Free then
        (case get_feature (features u) featureName of
           None \<Rightarrow> Inl TypeError
         | Some c \<Rightarrow> Inr (used c < limit c))
      else Inr True)"

text \<open>\<open>incrementFeatureUsage\<close>: adds one to \<open>used\<close> when the entry exists, else nothing.\<close>

definition incrementFeatureUsage :: "user \<Rightarrow> string \<Rightarrow> user" where
  "incrementFeatureUsage u featureName =
     (case get_feature (features u) featureName of
        None \<Rightarrow> u
      | Some c \<Rightarrow> u\<lparr>features := set_feature (features u) featureName (c\<lparr>used := used c + 1\<rparr>)\<rparr>)"

definition hasStorageSpace :: "user \<Rightarrow> int \<Rightarrow> bool" where
  "hasStorageSpace u fileSize =
     (if role u = RoleAdmin then True
      else used (storage (features u)) + fileSize \<le> limit (storage (features u)))"

definition addStorageUsage :: "user \<Rightarrow> int \<Rightarrow> user" where
  "addStorageUsage u fileSize =
     u\<lparr>features := (features u)\<lparr>storage :=
         (storage (features u))\<lparr>used := used (storage (features u)) + fileSize\<rparr>\<rparr>\<rparr>"

definition removeStorageUsage :: "user \<Rightarrow> int \<Rightarrow> user" where
  "removeStorageUsage u fileSize =
     u\<lparr>features := (features u)\<lparr>storage :=
         (storage (features u))\<lparr>used := max 0 (used (storage (features u)) - fileSize)\<rparr>\<rparr>\<rparr>"

text \<open>The document a fresh registration gets from the schema defaults.\<close>

definition default_features :: user_features where
  "default_features =
     \<lparr>imageToText = \<lparr>used = 0, limit = 10\<rparr>,
      textToImage = \<lparr>used = 0, limit = 5\<rparr>,
      videoDownloads = \<lparr>used = 0, limit = 5\<rparr>,
      storage = \<lparr>used = 0, limit = 104857600\<rparr>\<rparr>"

definition default_user :: "nat \<Rightarrow> user" where
  "default_user i =
     \<lparr>user_id = i, role = RoleUser, subscription_type = Free, features = default_features\<rparr>"

section \<open>The File model (backend/models/File.js)\<close>

text \<open>
  The fields of a file document that the lifecycle methods and the handlers read or
  write, with the two timestamps that the schema option \<open>timestamps: true\<close> adds. Dates
  are milliseconds since the epoch; \<open>null\<close> is \<open>None\<close>. The id of a stored document is a
  natural number. Fields that no modelled operation reads or writes (file name, path,
  url, metadata, tags, access data) are left out.
\<close>

datatype file_status = Uploading | Processing | Completed | Failed | Deleted

datatype media_type = Image | Document | Video | Audio | Other

datatype file_category =
  Original | Resized | Compressed | Converted | Generated | Processed | Signature | PassportPhoto

datatype processing_feature =
  Resize | Compress | Convert | ImageToText | TextToImage | BackgroundRemove
  | QualityEnhance | SignatureGenerate | PassportGenerate | VideoDownload

record processing_info =
  feature :: "processing_feature option"
  progress :: int
  error :: "string option"
  startedAt :: "int option"
  completedAt :: "int option"

record file_doc =
  file_id :: nat
  fsize :: int
  file_user :: nat
  ftype :: media_type
  category :: file_category
  status :: file_status
  processing :: processing_info
  expiresAt :: "int option"
  parentFile :: "nat option"
  relatedFiles :: "nat list"
  createdAt :: int
  updatedAt :: int

datatype db_error = ValidationError | CastError

text \<open>
  \<open>save()\<close> runs the schema validators before it writes: \<open>processing.progress\<close> has
  \<open>min: 0\<close> and \<open>max: 100\<close>. A document that fails them is rejected and not written.
  With \<open>timestamps: true\<close> a save of a modified document also sets \<open>updatedAt\<close> to the
  time of the save; a document whose assigned values all equal the loaded ones is not
  modified and is left as it is. \<open>loaded\<close> is the document as the method received it,
  \<open>f\<close> the document after the method's assignments, \<open>stamp\<close> the time of the save.
  A method is applied to a document as it is stored, as in the handlers, which load a
  document and call its methods with no rejected save in between.
\<close>

definition save :: "file_doc \<Rightarrow> file_doc \<Rightarrow> int \<Rightarrow> db_error + file_doc" where
  "save loaded f stamp =
     (if 0 \<le> progress (processing f) \<and> progress (processing f) \<le> 100
      then Inr (if f = loaded then f else f\<lparr>updatedAt := stamp\<rparr>)
      else Inl ValidationError)"

text \<open>
  \<open>startProcessing\<close> sets the status with no test of the status the file had, and
  assigns a new \<open>processing\<close> object that lists feature, progress, startedAt and error.
\<close>

definition startProcessing ::
  "file_doc \<Rightarrow> processing_feature \<Rightarrow> int \<Rightarrow> int \<Rightarrow> db_error + file_doc" where
  "startProcessing f feat now stamp =
     save f (f\<lparr>status := Processing,
               processing := \<lparr>feature = Some feat, progress = 0, error = None,
                              startedAt = Some now, completedAt = None\<rparr>\<rparr>) stamp"

text \<open>A JavaScript string is truthy when it is neither \<open>null\<close> nor empty.\<close>

definition truthy :: "string option \<Rightarrow> bool" where
  "truthy e = (case e of None \<Rightarrow> False | Some s \<Rightarrow> s \<noteq> [])"

definition updateProgress ::
  "file_doc \<Rightarrow> int \<Rightarrow> string option \<Rightarrow> int \<Rightarrow> int \<Rightarrow> db_error + file_doc" where
  "updateProgress f p err now stamp =
     (let f1 = f\<lparr>processing := (processing f)\<lparr>progress := p\<rparr>\<rparr> in
      if truthy err then
        save f (f1\<lparr>processing := (processing f1)\<lparr>error := err\<rparr>, status := Failed\<rparr>) stamp
      else if 100 \<le> p then
        save f (f1\<lparr>status := Completed,
                    processing := (processing f1)\<lparr>completedAt := Some now\<rparr>\<rparr>) stamp
      else save f f1 stamp)"

definition completeProcessing :: "file_doc \<Rightarrow> int \<Rightarrow> int \<Rightarrow> db_error + file_doc" where
  "completeProcessing f now stamp =
     save f (f\<lparr>status := Completed,
               processing := (processing f)\<lparr>progress := 100, completedAt := Some now\<rparr>\<rparr>) stamp"

text \<open>
  \<open>updateMany(filter, update)\<close> over the collection, and the filter
  \<open>{expiresAt: {$lt: now}}\<close>, which a \<open>null\<close> date does not match. \<open>cleanupExpired\<close>
  passes the update \<open>{status: 'deleted'}\<close>; with \<open>timestamps: true\<close> the update also sets
  \<open>updatedAt\<close> of every matched document to the time of the update (\<open>stamp\<close>). The
  definition is the effect of the query that \<open>cleanupExpired\<close> returns, once it is run.
\<close>

primrec updateMany :: "(file_doc \<Rightarrow> bool) \<Rightarrow> (file_doc \<Rightarrow> file_doc) \<Rightarrow> file_doc list \<Rightarrow> file_doc list" where
  "updateMany q upd [] = []"
| "updateMany q upd (f # fs) = (if q f then upd f else f) # updateMany q upd fs"

definition expired :: "int \<Rightarrow> file_doc \<Rightarrow> bool" where
  "expired now f = (case expiresAt f of None \<Rightarrow> False | Some e \<Rightarrow> e < now)"

definition cleanupExpired :: "int \<Rightarrow> int \<Rightarrow> file_doc list \<Rightarrow> file_doc list" where
  "cleanupExpired now stamp fs =
     updateMany (expired now) (\<lambda>f. f\<lparr>status := Deleted, updatedAt := stamp\<rparr>) fs"

text \<open>The lifecycle methods as operations on one document.\<close>

datatype file_op =
  StartProcessing processing_feature int int
  | UpdateProgress int "string option" int int
  | CompleteProcessing int int
  | CleanupExpired int int

fun apply_file_op :: "file_op \<Rightarrow> file_doc \<Rightarrow> db_error + file_doc" where
  "apply_file_op (StartProcessing feat now stamp) f = startProcessing f feat now stamp"
| "apply_file_op (UpdateProgress p err now stamp) f = updateProgress f p err now stamp"
| "apply_file_op (CompleteProcessing now stamp) f = completeProcessing f now stamp"
| "apply_file_op (CleanupExpired now stamp) f = Inr (hd (cleanupExpired now stamp [f]))"

section \<open>The collections and the request handlers\<close>

text \<open>
  The database holds the users and the files; \<open>next_id\<close> is the next fresh document id.
  A handler runs for an authenticated user (\<open>req.user\<close>), whom the authentication
  middleware loads from the users collection; a request for a user that does not exist
  does not reach the handler. The route middleware, the usage log, the file system and
  the image and AI engines are outside the model: writes to the database and to the
  usage log are taken to succeed, and what an engine returns is an argument of the
  handler (\<open>None\<close> when it throws). A handler reads the clock once (\<open>now\<close>).

  An id that comes with a request is taken to be a string, as a route parameter always
  is. Either it casts to the id of a document (\<open>ObjectId\<close>), or it is malformed;
  \<open>File.findById\<close> and \<open>File.findByIdAndDelete\<close> then reject with a cast error, which
  the handler's \<open>catch\<close> answers with status 500.
\<close>

datatype id_param = ObjectId nat | MalformedId

record db =
  users :: "user list"
  files :: "file_doc list"
  next_id :: nat

datatype response =
  Ok200 | BadRequest400 | Unauthorized401 | Forbidden403 | NotFound404 | ServerError500

definition findUser :: "nat \<Rightarrow> user list \<Rightarrow> user option" where
  "findUser i us = find (\<lambda>u. user_id u = i) us"

definition saveUser :: "user \<Rightarrow> user list \<Rightarrow> user list" where
  "saveUser u us = map (\<lambda>v. if user_id v = user_id u then u else v) us"

definition findById :: "id_param \<Rightarrow> file_doc list \<Rightarrow> db_error + file_doc option" where
  "findById p fs =
     (case p of
        MalformedId \<Rightarrow> Inl CastError
      | ObjectId i \<Rightarrow> Inr (find (\<lambda>f. file_id f = i) fs))"


text \<open>\<open>_id\<close> is unique in a collection, so removing by id removes every match.\<close>

definition findByIdAndDelete :: "id_param \<Rightarrow> file_doc list \<Rightarrow> db_error + file_doc list" where
  "findByIdAndDelete p fs =
     (case p of
        MalformedId \<Rightarrow> Inl CastError
      | ObjectId i \<Rightarrow> Inr (filter (\<lambda>f. file_id f \<noteq> i) fs))"

definition new_file ::
  "nat \<Rightarrow> int \<Rightarrow> nat \<Rightarrow> media_type \<Rightarrow> file_category \<Rightarrow> file_status \<Rightarrow> nat option \<Rightarrow> int
     \<Rightarrow> file_doc" where
  "new_file i sz uid ty cat st parent now =
     \<lparr>file_id = i, fsize = sz, file_user = uid, ftype = ty, category = cat, status = st,
      processing = \<lparr>feature = None, progress = 0, error = None,
                     startedAt = None, completedAt = None\<rparr>,
      expiresAt = None, parentFile = parent, relatedFiles = [],
      createdAt = now, updatedAt = now\<rparr>"

text \<open>
  \<open>File.create\<close>: the new document gets a fresh id, the schema defaults and the time of
  its creation in both timestamps.
\<close>

definition createFile ::
  "int \<Rightarrow> nat \<Rightarrow> media_type \<Rightarrow> file_category \<Rightarrow> file_status \<Rightarrow> nat option \<Rightarrow> int \<Rightarrow> db
     \<Rightarrow> file_doc \<times> db" where
  "createFile sz uid ty cat st parent now d =
     (let f = new_file (next_id d) sz uid ty cat st parent now
      in (f, d\<lparr>files := files d @ [f], next_id := Suc (next_id d)\<rparr>))"

text \<open>
  \<open>getStorageUsage\<close> (File.js): total size and number of the user's files that are not
  \<open>deleted\<close>; the aggregation has no group when nothing matches.
\<close>

definition getStorageUsage :: "nat \<Rightarrow> file_doc list \<Rightarrow> (int \<times> nat) option" where
  "getStorageUsage uid fs =
     (let ms = filter (\<lambda>f. file_user f = uid \<and> status f \<noteq> Deleted) fs
      in if ms = [] then None else Some (sum_list (map fsize ms), length ms))"

subsection \<open>POST /api/images/upload (controllers/imageController.js, uploadImage)\<close>

definition uploadImage :: "nat \<Rightarrow> int option \<Rightarrow> bool \<Rightarrow> int \<Rightarrow> db \<Rightarrow> response \<times> db" where
  "uploadImage uid req_file metadata_ok now d =
     (case findUser uid (users d) of
        None \<Rightarrow> (Unauthorized401, d)
      | Some u \<Rightarrow>
          (case req_file of
             None \<Rightarrow> (BadRequest400, d)
           | Some sz \<Rightarrow>
               if \<not> metadata_ok then (ServerError500, d)
               else
                 let (f, d1) = createFile sz uid Image Original Completed None now d;
                     d2 = d1\<lparr>users := saveUser (addStorageUsage u sz) (users d1)\<rparr>
                 in (Ok200, d2)))"

subsection \<open>POST /api/images/resize (controllers/imageController.js, resizeImage)\<close>


subsection \<open>DELETE /api/images/:id (routes/images.js)\<close>

text \<open>
  A failure to unlink the file on disk is caught and logged, so it does not change the
  outcome. The storage counter is reduced and saved, then the record is removed.
\<close>

definition deleteImage :: "nat \<Rightarrow> id_param \<Rightarrow> db \<Rightarrow> response \<times> db" where
  "deleteImage uid i d =
     (case findUser uid (users d) of
        None \<Rightarrow> (Unauthorized401, d)
      | Some u \<Rightarrow>
          (case findById i (files d) of
             Inl e \<Rightarrow> (ServerError500, d)
           | Inr None \<Rightarrow> (NotFound404, d)
           | Inr (Some f) \<Rightarrow>
               if file_user f \<noteq> uid then (NotFound404, d)
               else
                 let d1 = d\<lparr>users := saveUser (removeStorageUsage u (fsize f)) (users d)\<rparr>
                 in (case findByIdAndDelete i (files d1) of
                       Inl e \<Rightarrow> (ServerError500, d1)
                     | Inr fs \<Rightarrow> (Ok200, d1\<lparr>files := fs\<rparr>))))"

subsection \<open>DELETE /api/admin/files/:id (routes/admin.js)\<close>

definition adminDeleteFile :: "id_param \<Rightarrow> db \<Rightarrow> response \<times> db" where
  "adminDeleteFile i d =
     (case findById i (files d) of
        Inl e \<Rightarrow> (ServerError500, d)
      | Inr None \<Rightarrow> (NotFound404, d)
      | Inr (Some f) \<Rightarrow>
          (case findByIdAndDelete i (files d) of
             Inl e \<Rightarrow> (ServerError500, d)
           | Inr fs \<Rightarrow> (Ok200, d\<lparr>files := fs\<rparr>)))"

subsection \<open>POST /api/ai/text-to-image (controllers/videoController.js, textToImage)\<close>

text \<open>
  The handler is named \<open>textToImage_handler\<close> here, \<open>textToImage\<close> being the counter
  of the user document. \<open>prompt_given\<close>: the body has a prompt; \<open>api_key\<close>: the OpenAI key is configured;
  \<open>generated\<close>: the generation call returned; \<open>downloaded\<close>: the size of the image saved
  locally, \<open>None\<close> when the download or the write throws (the handler then still answers
  200, with the external URL only).
\<close>

definition textToImage_handler ::
  "nat \<Rightarrow> bool \<Rightarrow> bool \<Rightarrow> bool \<Rightarrow> int option \<Rightarrow> int \<Rightarrow> db \<Rightarrow> response \<times> db" where
  "textToImage_handler uid prompt_given api_key generated downloaded now d =
     (case findUser uid (users d) of
        None \<Rightarrow> (Unauthorized401, d)
      | Some u \<Rightarrow>
          if \<not> prompt_given then (BadRequest400, d)
          else
     (case canUseFeature u ''text-to-image'' of
        Inl e \<Rightarrow> (ServerError500, d)
      | Inr False \<Rightarrow> (Forbidden403, d)
      | Inr True \<Rightarrow>
          if \<not> api_key then (ServerError500, d)
          else if \<not> generated then (ServerError500, d)
          else
     (case downloaded of
        None \<Rightarrow> (Ok200, d)
      | Some sz \<Rightarrow>
          let (f, d1) = createFile sz uid Image Generated Completed None now d;
              u1 = addStorageUsage u sz;
              d2 = d1\<lparr>users := saveUser u1 (users d1)\<rparr>;
              u2 = incrementFeatureUsage u1 ''text-to-image'';
              d3 = d2\<lparr>users := saveUser u2 (users d2)\<rparr>
          in (Ok200, d3))))"

subsection \<open>The expiry sweep on the database\<close>

definition sweep :: "int \<Rightarrow> int \<Rightarrow> db \<Rightarrow> db" where
  "sweep now stamp d = d\<lparr>files := cleanupExpired now stamp (files d)\<rparr>"

subsection \<open>The storage ledger\<close>

text \<open>
  The sum of the sizes of a user's files whose status is completed or processing, and
  the statement that every user's storage counter equals it.
\<close>

definition counted :: "nat \<Rightarrow> file_doc \<Rightarrow> bool" where
  "counted uid f = (file_user f = uid \<and> (status f = Completed \<or> status f = Processing))"

definition storage_sum :: "nat \<Rightarrow> file_doc list \<Rightarrow> int" where
  "storage_sum uid fs = sum_list (map fsize (filter (counted uid) fs))"

definition storage_invariant :: "db \<Rightarrow> bool" where
  "storage_invariant d =
     list_all (\<lambda>u. used (storage (features u)) = storage_sum (user_id u) (files d)) (users d)"

definition initial_db :: db where
  "initial_db = \<lparr>users = [default_user 1], files = [], next_id = 0\<rparr>"

subsection \<open>Concrete users, files and databases\<close>

definition uploaded_db :: db where
  "uploaded_db = snd (uploadImage 1 (Some 100) True 0 initial_db)"

definition user_at_limit :: user where
  "user_at_limit =
     (default_user 1)\<lparr>features := default_features\<lparr>textToImage := \<lparr>used = 5, limit = 5\<rparr>\<rparr>\<rparr>"

definition db_at_limit :: db where
  "db_at_limit = \<lparr>users = [user_at_limit], files = [], next_id = 0\<rparr>"

definition sweep_db :: db where
  "sweep_db =
     \<lparr>users = [addStorageUsage (default_user 1) 300],
      files = [(new_file 0 100 1 Image Original Completed None 0)\<lparr>expiresAt := Some 10\<rparr>,
               (new_file 1 100 1 Image Original Processing None 0)\<lparr>expiresAt := Some 5\<rparr>,
               (new_file 2 100 1 Image Original Completed None 0)\<lparr>expiresAt := Some 5\<rparr>],
      next_id = 3\<rparr>"



definition processing_file :: file_doc where
  "processing_file = new_file 0 100 1 Image Original Processing None 0"

definition completed_file :: file_doc where
  "completed_file =
     processing_file\<lparr>status := Completed,
       processing := (processing processing_file)\<lparr>progress := 100, completedAt := Some 7\<rparr>,
       updatedAt := 8\<rparr>"

section \<open>Properties of the User methods\<close>

lemma get_feature_None_iff: "get_feature fs f = None \<longleftrightarrow> f \<notin> set feature_keys"
  by (simp add: get_feature_def feature_keys_def)

lemma handler_names_no_keys: "f \<in> set handler_feature_names \<Longrightarrow> f \<notin> set feature_keys"
  by (auto simp: handler_feature_names_def feature_keys_def)

lemma canUseFeature_handler_name_throws:
  "role u \<noteq> RoleAdmin \<Longrightarrow> subscription_type u = Free \<Longrightarrow> f \<in> set handler_feature_names \<Longrightarrow>
     canUseFeature u f = Inl TypeError"
proof -
  assume "role u \<noteq> RoleAdmin" "subscription_type u = Free" "f \<in> set handler_feature_names"
  moreover from \<open>f \<in> set handler_feature_names\<close> have "get_feature (features u) f = None"
    by (simp add: get_feature_None_iff handler_names_no_keys)
  ultimately show ?thesis
    by (simp add: canUseFeature_def)
qed

lemma canUseFeature_at_limit_denies:
  "role u \<noteq> RoleAdmin \<Longrightarrow> subscription_type u = Free \<Longrightarrow>
   get_feature (features u) f = Some c \<Longrightarrow> limit c \<le> used c \<Longrightarrow>
     canUseFeature u f = Inr False"
  by (simp add: canUseFeature_def)

text \<open>
  C9. For a feature name that is not a key of the user's \<open>features\<close> document, and so for
  the names the image controller passes (\<open>image-resize\<close>, \<open>image-compress\<close>,
  \<open>image-quality-enhance\<close>, \<open>background-remove\<close>), \<open>incrementFeatureUsage\<close> returns the
  user record unchanged.
\<close>

theorem incrementFeatureUsage_unknown_noop:
  "(f \<notin> set feature_keys \<longrightarrow> incrementFeatureUsage u f = u) \<and>
   incrementFeatureUsage u ''image-resize'' = u \<and>
   incrementFeatureUsage u ''image-compress'' = u \<and>
   incrementFeatureUsage u ''image-quality-enhance'' = u \<and>
   incrementFeatureUsage u ''background-remove'' = u"
proof -
  have noop: "incrementFeatureUsage u g = u" if "g \<notin> set feature_keys" for g
  proof -
    from that have "get_feature (features u) g = None"
      by (simp add: get_feature_None_iff)
    then show ?thesis
      by (simp add: incrementFeatureUsage_def)
  qed
  have "''image-resize'' \<notin> set feature_keys" "''image-compress'' \<notin> set feature_keys"
    "''image-quality-enhance'' \<notin> set feature_keys" "''background-remove'' \<notin> set feature_keys"
    by (simp_all add: feature_keys_def)
  with noop show ?thesis
    by blast
qed

theorem incrementFeatureUsage_unknown_noop_witness:
  "''youtube-download'' \<notin> set feature_keys \<and>
   incrementFeatureUsage (default_user 1) ''youtube-download'' = default_user 1"
  using incrementFeatureUsage_unknown_noop [of "''youtube-download''" "default_user 1"]
  by (simp add: feature_keys_def)

text \<open>
  C10. When \<open>features.storage.used\<close> is not negative, it is not negative after
  \<open>removeStorageUsage\<close>, whatever the size removed: the result is the difference clamped
  at zero.
\<close>

theorem removeStorageUsage_nonneg:
  "0 \<le> used (storage (features u)) \<Longrightarrow>
     0 \<le> used (storage (features (removeStorageUsage u fileSize))) \<and>
     used (storage (features (removeStorageUsage u fileSize)))
       = max 0 (used (storage (features u)) - fileSize)"
  by (simp add: removeStorageUsage_def)

theorem removeStorageUsage_nonneg_witness:
  "(0::int) \<le> used (storage (features (default_user 1))) \<and>
   used (storage (features (removeStorageUsage (default_user 1) 500))) = 0"
  using removeStorageUsage_nonneg [of "default_user 1" 500]
  by (simp add: default_user_def default_features_def)

section \<open>Properties of the File methods\<close>

lemma updateMany_map: "updateMany q upd fs = map (\<lambda>f. if q f then upd f else f) fs"
  by (induction fs) simp_all

lemma save_ok:
  assumes "0 \<le> progress (processing g)" "progress (processing g) \<le> 100"
  shows "\<exists>f'. save f g stamp = Inr f' \<and> status f' = status g \<and>
           processing f' = processing g \<and> (f' = f \<or> updatedAt f' = stamp) \<and>
           f'\<lparr>updatedAt := updatedAt g\<rparr> = g"
  using assms by (cases "g = f") (simp_all add: save_def)

lemma frame_from_save:
  assumes "f'\<lparr>updatedAt := updatedAt g\<rparr> = g"
    and "g\<lparr>status := status f, processing := processing f\<rparr> = f"
    and "updatedAt g = updatedAt f"
  shows "f'\<lparr>status := status f, processing := processing f, updatedAt := updatedAt f\<rparr> = f"
  using assms by (cases f', cases g, cases f) auto

text \<open>
  C3 (as amended). The expiry sweep keeps the collection's length and order. On exactly
  the files whose \<open>expiresAt\<close> is set and strictly earlier than \<open>now\<close>, whatever their
  status was, it sets the status to deleted and \<open>updatedAt\<close> to the time of the update;
  it changes no other field of these files and nothing in any other file.
\<close>

theorem cleanupExpired_effect:
  "length (cleanupExpired now stamp fs) = length fs \<and>
   (\<forall>i<length fs.
      status (cleanupExpired now stamp fs ! i)
        = (if (\<exists>e. expiresAt (fs ! i) = Some e \<and> e < now) then Deleted else status (fs ! i)) \<and>
      updatedAt (cleanupExpired now stamp fs ! i)
        = (if (\<exists>e. expiresAt (fs ! i) = Some e \<and> e < now) then stamp else updatedAt (fs ! i)) \<and>
      (cleanupExpired now stamp fs ! i)
         \<lparr>status := status (fs ! i), updatedAt := updatedAt (fs ! i)\<rparr> = fs ! i)"
  by (auto simp: cleanupExpired_def updateMany_map expired_def split: option.splits)

theorem cleanupExpired_effect_witness:
  "(0::nat) < length (files sweep_db) \<and>
   status (cleanupExpired 10 12 (files sweep_db) ! 0) = Completed \<and>
   updatedAt (cleanupExpired 10 12 (files sweep_db) ! 0) = 0 \<and>
   (1::nat) < length (files sweep_db) \<and>
   status (cleanupExpired 10 12 (files sweep_db) ! 1) = Deleted \<and>
   updatedAt (cleanupExpired 10 12 (files sweep_db) ! 1) = 12"
  using cleanupExpired_effect [of 10 12 "files sweep_db"]
  by (simp add: sweep_db_def new_file_def)

text \<open>
  C3 (as stated) fails on \<open>sweep_db\<close> at time 10: the completed file that expires at 10
  stays completed, the processing file that expired at 5 is set to deleted, and the
  owner's storage counter is the same after the sweep, although a completed file of
  size 100 was set to deleted.
\<close>

theorem cleanupExpired_counterexample:
  "map expiresAt (files sweep_db) = [Some 10, Some 5, Some 5] \<and>
   map status (files sweep_db) = [Completed, Processing, Completed] \<and>
   map status (files (sweep 10 12 sweep_db)) = [Completed, Deleted, Deleted] \<and>
   users (sweep 10 12 sweep_db) = users sweep_db"
  by (simp add: sweep_db_def sweep_def cleanupExpired_def expired_def new_file_def)

text \<open>
  C6 (as amended). \<open>startProcessing\<close> succeeds from every prior status: the file is then
  processing, with progress 0, no error and the start time set; nothing but the status,
  the processing object and, when these changed, the time of the last update changes.
\<close>

theorem startProcessing_any_status:
  "\<exists>f'. startProcessing f feat now stamp = Inr f' \<and> status f' = Processing \<and>
     progress (processing f') = 0 \<and> error (processing f') = None \<and>
     startedAt (processing f') = Some now \<and>
     (f' = f \<or> updatedAt f' = stamp) \<and>
     f'\<lparr>status := status f, processing := processing f, updatedAt := updatedAt f\<rparr> = f"
proof -
  let ?g = "f\<lparr>status := Processing,
               processing := \<lparr>feature = Some feat, progress = 0, error = None,
                              startedAt = Some now, completedAt = None\<rparr>\<rparr>"
  have "0 \<le> progress (processing ?g)" "progress (processing ?g) \<le> 100"
    by simp_all
  from save_ok [OF this] obtain f' where
    "save f ?g stamp = Inr f'" "status f' = status ?g" "processing f' = processing ?g"
    "f' = f \<or> updatedAt f' = stamp" "f'\<lparr>updatedAt := updatedAt ?g\<rparr> = ?g"
    by blast
  moreover from \<open>f'\<lparr>updatedAt := updatedAt ?g\<rparr> = ?g\<close>
  have "f'\<lparr>status := status f, processing := processing f, updatedAt := updatedAt f\<rparr> = f"
    by (rule frame_from_save) simp_all
  ultimately show ?thesis
    by (simp add: startProcessing_def)
qed

text \<open>
  C6 (as stated) fails: a file whose status is deleted is moved to processing, with no
  error.
\<close>

theorem startProcessing_counterexample:
  "status (new_file 0 100 1 Image Original Deleted None 0) = Deleted \<and>
   startProcessing (new_file 0 100 1 Image Original Deleted None 0) Resize 10 11
     = Inr ((new_file 0 100 1 Image Original Processing None 0)
              \<lparr>processing := \<lparr>feature = Some Resize, progress = 0, error = None,
                               startedAt = Some 10, completedAt = None\<rparr>,
               updatedAt := 11\<rparr>)"
  by (simp add: startProcessing_def save_def new_file_def)

text \<open>
  C7. \<open>completeProcessing\<close> always succeeds and leaves the file completed with progress
  100 and the completion time set, the rest of the processing object kept;
  \<open>updateProgress\<close> with progress 100 and no error does the same. Whenever a lifecycle
  method, applied to a stored file that is processing, saves it as completed, the saved
  file has progress 100 and a completion time.
\<close>

theorem completed_from_processing:
  "(\<exists>f'. completeProcessing f now stamp = Inr f' \<and> status f' = Completed \<and>
      processing f' = (processing f)\<lparr>progress := 100, completedAt := Some now\<rparr> \<and>
      f'\<lparr>status := status f, processing := processing f, updatedAt := updatedAt f\<rparr> = f) \<and>
   (\<not> truthy err \<longrightarrow>
      (\<exists>f'. updateProgress f 100 err now stamp = Inr f' \<and> status f' = Completed \<and>
         processing f' = (processing f)\<lparr>progress := 100, completedAt := Some now\<rparr>)) \<and>
   (apply_file_op op f = Inr g \<longrightarrow> status f = Processing \<longrightarrow> status g = Completed \<longrightarrow>
      progress (processing g) = 100 \<and> completedAt (processing g) \<noteq> None)"
proof -
  have complete: "\<exists>f'. completeProcessing f now stamp = Inr f' \<and> status f' = Completed \<and>
      processing f' = (processing f)\<lparr>progress := 100, completedAt := Some now\<rparr> \<and>
      f'\<lparr>status := status f, processing := processing f, updatedAt := updatedAt f\<rparr> = f"
  proof -
    let ?g = "f\<lparr>status := Completed,
                 processing := (processing f)\<lparr>progress := 100, completedAt := Some now\<rparr>\<rparr>"
    have "0 \<le> progress (processing ?g)" "progress (processing ?g) \<le> 100"
      by simp_all
    from save_ok [OF this] obtain f' where
      "save f ?g stamp = Inr f'" "status f' = status ?g" "processing f' = processing ?g"
      "f'\<lparr>updatedAt := updatedAt ?g\<rparr> = ?g"
      by blast
    moreover from \<open>f'\<lparr>updatedAt := updatedAt ?g\<rparr> = ?g\<close>
    have "f'\<lparr>status := status f, processing := processing f, updatedAt := updatedAt f\<rparr> = f"
      by (rule frame_from_save) simp_all
    ultimately show ?thesis
      by (simp add: completeProcessing_def)
  qed
  have update: "\<exists>f'. updateProgress f 100 err now stamp = Inr f' \<and> status f' = Completed \<and>
         processing f' = (processing f)\<lparr>progress := 100, completedAt := Some now\<rparr>"
    if "\<not> truthy err"
  proof -
    let ?g = "f\<lparr>status := Completed,
                 processing := (processing f)\<lparr>progress := 100, completedAt := Some now\<rparr>\<rparr>"
    have "0 \<le> progress (processing ?g)" "progress (processing ?g) \<le> 100"
      by simp_all
    from save_ok [OF this] obtain f' where
      "save f ?g stamp = Inr f'" "status f' = status ?g" "processing f' = processing ?g"
      by blast
    with that show ?thesis
      by (simp add: updateProgress_def Let_def)
  qed
  have step: "progress (processing g) = 100 \<and> completedAt (processing g) \<noteq> None"
    if "apply_file_op op f = Inr g" "status f = Processing" "status g = Completed"
    using that
    by (cases op)
       (auto simp: startProcessing_def updateProgress_def completeProcessing_def save_def
          cleanupExpired_def Let_def split: if_splits)
  from complete update step show ?thesis
    by blast
qed

theorem completed_from_processing_witness:
  "\<not> truthy None \<and>
   status processing_file = Processing \<and>
   completeProcessing processing_file 7 8 = Inr completed_file \<and>
   updateProgress processing_file 100 None 7 8 = Inr completed_file \<and>
   apply_file_op (CompleteProcessing 7 8) processing_file = Inr completed_file \<and>
   status completed_file = Completed \<and>
   progress (processing completed_file) = 100 \<and>
   completedAt (processing completed_file) = Some 7"
proof -
  have none: "\<not> truthy None"
    by (simp add: truthy_def)
  have before: "status processing_file = Processing"
    by (simp add: processing_file_def new_file_def)
  have run: "apply_file_op (CompleteProcessing 7 8) processing_file = Inr completed_file"
    by (simp add: completeProcessing_def save_def completed_file_def processing_file_def
        new_file_def)
  have upd: "updateProgress processing_file 100 None 7 8 = Inr completed_file"
    by (simp add: updateProgress_def truthy_def save_def completed_file_def processing_file_def
        new_file_def)
  have after: "status completed_file = Completed"
    by (simp add: completed_file_def)
  have at: "completedAt (processing completed_file) = Some 7"
    by (simp add: completed_file_def)
  from completed_from_processing
         [of processing_file 7 8 None "CompleteProcessing 7 8" completed_file]
       none before run upd after at
  show ?thesis
    by simp
qed

section \<open>Properties of the handlers\<close>

lemma findUser_id: "findUser i us = Some u \<Longrightarrow> user_id u = i"
  by (auto simp: findUser_def find_Some_iff)

lemma findUser_saveUser:
  "findUser i us = Some u \<Longrightarrow> user_id v = i \<Longrightarrow> findUser i (saveUser v us) = Some v"
  by (induction us) (auto simp: findUser_def saveUser_def split: if_splits)

lemma findById_deleted: "findByIdAndDelete p fs = Inr fs' \<Longrightarrow> findById p fs' = Inr None"
  by (cases p) (auto simp: findById_def findByIdAndDelete_def find_None_iff)

lemma findById_found_delete: "findById p fs = Inr r \<Longrightarrow> \<exists>fs'. findByIdAndDelete p fs = Inr fs'"
  by (cases p) (auto simp: findById_def findByIdAndDelete_def)

lemma user_id_removeStorageUsage: "user_id (removeStorageUsage u n) = user_id u"
  by (simp add: removeStorageUsage_def)

lemma uploaded_db_eq:
  "uploaded_db =
     \<lparr>users = [addStorageUsage (default_user 1) 100],
      files = [new_file 0 100 1 Image Original Completed None 0],
      next_id = 1\<rparr>"
  by (simp add: uploaded_db_def uploadImage_def initial_db_def findUser_def default_user_def
      createFile_def saveUser_def addStorageUsage_def Let_def)

text \<open>
  C1. After an upload the storage counter equals the sum of the sizes of the owner's
  completed and processing files. The admin delete then removes the file record and
  leaves the owner's counter at 100 while no file is left, so the equality is lost.
\<close>

theorem adminDeleteFile_breaks_storage_invariant:
  "storage_invariant initial_db \<and> storage_invariant uploaded_db \<and>
   fst (adminDeleteFile (ObjectId 0) uploaded_db) = Ok200 \<and>
   files (snd (adminDeleteFile (ObjectId 0) uploaded_db)) = [] \<and>
   users (snd (adminDeleteFile (ObjectId 0) uploaded_db))
     = [addStorageUsage (default_user 1) 100] \<and>
   used (storage (features (addStorageUsage (default_user 1) 100))) = 100 \<and>
   storage_sum 1 (files (snd (adminDeleteFile (ObjectId 0) uploaded_db))) = 0 \<and>
   \<not> storage_invariant (snd (adminDeleteFile (ObjectId 0) uploaded_db))"
  by (simp add: uploaded_db_eq initial_db_def storage_invariant_def storage_sum_def counted_def
      adminDeleteFile_def findById_def findByIdAndDelete_def new_file_def addStorageUsage_def
      default_user_def default_features_def)

text \<open>
  C2. A free user whose \<open>textToImage\<close> counter is at its limit (5 of 5) asks for one more
  image. Under the schema's key the check denies, but the handler asks for
  \<open>text-to-image\<close>: the check throws, the handler answers 500 and not 403, and the
  database, the counter included, is unchanged.
\<close>

theorem textToImage_at_limit:
  "canUseFeature user_at_limit ''textToImage'' = Inr False \<and>
   canUseFeature user_at_limit ''text-to-image'' = Inl TypeError \<and>
   textToImage_handler 1 True True True (Some 2048) 0 db_at_limit
     = (ServerError500, db_at_limit) \<and>
   used (textToImage (features user_at_limit)) = 5"
  by (simp add: canUseFeature_def get_feature_def textToImage_handler_def db_at_limit_def
      findUser_def user_at_limit_def default_user_def default_features_def)

text \<open>
  C8. For a free user with the schema's default counters, the lookup
  \<open>features[featureName]\<close> is undefined for the names the handlers pass, and
  \<open>canUseFeature\<close> throws on it.
\<close>

theorem canUseFeature_handler_names_undefined:
  "get_feature (features (default_user 1)) ''image-resize'' = None \<and>
   get_feature (features (default_user 1)) ''text-to-image'' = None \<and>
   get_feature (features (default_user 1)) ''background-remove'' = None \<and>
   canUseFeature (default_user 1) ''image-resize'' = Inl TypeError \<and>
   canUseFeature (default_user 1) ''text-to-image'' = Inl TypeError \<and>
   canUseFeature (default_user 1) ''background-remove'' = Inl TypeError"
  by (simp add: canUseFeature_def get_feature_def default_user_def)

text \<open>
  C4 (as amended). When a delete request succeeds, the file belonged to the caller, its
  record is gone afterwards, the caller's storage counter has been reduced once by the
  file's size (not below zero), and a second delete of the same id answers 404 and
  leaves the database as it is.
\<close>

theorem deleteImage_twice:
  assumes "deleteImage uid i d = (Ok200, d1)"
  shows "\<exists>u f. findUser uid (users d) = Some u \<and> findById i (files d) = Inr (Some f) \<and>
           file_user f = uid \<and>
           findById i (files d1) = Inr None \<and>
           (\<exists>u1. findUser uid (users d1) = Some u1 \<and>
                 used (storage (features u1)) = max 0 (used (storage (features u)) - fsize f)) \<and>
           deleteImage uid i d1 = (NotFound404, d1)"
proof -
  from assms obtain u where u: "findUser uid (users d) = Some u"
    by (auto simp: deleteImage_def split: option.splits)
  from assms u obtain f where f: "findById i (files d) = Inr (Some f)"
    by (auto simp: deleteImage_def split: option.splits sum.splits)
  from assms u f have own: "file_user f = uid"
    by (auto simp: deleteImage_def split: if_splits)
  from findById_found_delete [OF f] obtain fs' where del: "findByIdAndDelete i (files d) = Inr fs'"
    by blast
  let ?u1 = "removeStorageUsage u (fsize f)"
  from assms u f own del
  have d1: "d1 = d\<lparr>users := saveUser ?u1 (users d), files := fs'\<rparr>"
    by (simp add: deleteImage_def Let_def)
  have gone: "findById i (files d1) = Inr None"
    using findById_deleted [OF del] by (simp add: d1)
  have "user_id ?u1 = uid"
    using findUser_id [OF u] by (simp add: user_id_removeStorageUsage)
  then have u1: "findUser uid (users d1) = Some ?u1"
    using findUser_saveUser [OF u] by (simp add: d1)
  have cnt: "used (storage (features ?u1)) = max 0 (used (storage (features u)) - fsize f)"
    by (simp add: removeStorageUsage_def)
  have again: "deleteImage uid i d1 = (NotFound404, d1)"
    by (simp add: deleteImage_def u1 gone)
  from u f own gone u1 cnt again show ?thesis
    by blast
qed

lemma deleteImage_uploaded:
  "deleteImage 1 (ObjectId 0) uploaded_db
     = (Ok200, \<lparr>users = [default_user 1], files = [], next_id = 1\<rparr>)"
  by (simp add: uploaded_db_eq deleteImage_def findUser_def findById_def findByIdAndDelete_def
      saveUser_def new_file_def removeStorageUsage_def addStorageUsage_def default_user_def
      default_features_def)

theorem deleteImage_twice_witness:
  "deleteImage 1 (ObjectId 0) uploaded_db
     = (Ok200, \<lparr>users = [default_user 1], files = [], next_id = 1\<rparr>) \<and>
   deleteImage 1 (ObjectId 0) \<lparr>users = [default_user 1], files = [], next_id = 1\<rparr>
     = (NotFound404, \<lparr>users = [default_user 1], files = [], next_id = 1\<rparr>)"
  using deleteImage_twice [OF deleteImage_uploaded] deleteImage_uploaded
  by blast

text \<open>
  C4 (as stated) fails: the first delete answers 200 and removes the record, so no file
  is ever in status deleted; the second delete answers 404, not success.
\<close>

theorem deleteImage_twice_counterexample:
  "fst (deleteImage 1 (ObjectId 0) uploaded_db) = Ok200 \<and>
   files (snd (deleteImage 1 (ObjectId 0) uploaded_db)) = [] \<and>
   fst (deleteImage 1 (ObjectId 0) (snd (deleteImage 1 (ObjectId 0) uploaded_db))) = NotFound404"
  unfolding deleteImage_uploaded
  by (simp add: deleteImage_def findUser_def findById_def default_user_def)




end
